theory Spec2Isabelle
  imports Complex_Main
begin

section \<open>Python values and exceptions\<close>

text \<open>
  The module \<^verbatim>\<open>prereise/gather/griddata/transmission/geometry.py\<close> computes with Python
  floats. They are modelled as mathematical reals: rounding, overflow, infinities and NaN
  are outside the model. Everything else the arithmetic does is kept: a division by zero
  raises, \<^verbatim>\<open>math.log\<close> raises outside its domain, arithmetic on \<^verbatim>\<open>None\<close> raises, and a
  negative float raised to a fractional power is a complex number, which \<^verbatim>\<open>math.log\<close>
  refuses.
\<close>

datatype error =
    ValueError string
  | NotImplementedError string
  | TypeError
  | ZeroDivisionError

datatype pynum = PyFloat real | PyComplex complex

fun to_complex :: "pynum \<Rightarrow> complex" where
  "to_complex (PyFloat x) = complex_of_real x"
| "to_complex (PyComplex z) = z"

text \<open>
  \<^verbatim>\<open>x ** p\<close> for a float \<open>x\<close> and the exponents of this module (\<open>1/2\<close>, \<open>1/3\<close>, \<open>1/4\<close>,
  \<open>1/8\<close>: positive, not integers). A negative base gives the complex number of modulus
  \<open>|x| ** p\<close> and argument \<open>pi * p\<close>; zero gives zero.
\<close>

definition float_pow :: "real \<Rightarrow> real \<Rightarrow> pynum" where
  "float_pow x p =
     (if x < 0 then PyComplex (complex_of_real ((- x) powr p) * cis (pi * p))
      else PyFloat (x powr p))"

text \<open>\<^verbatim>\<open>x / y\<close>: a float when both are floats, complex otherwise; a zero divisor raises.\<close>

fun py_truediv :: "pynum \<Rightarrow> pynum \<Rightarrow> error + pynum" where
  "py_truediv (PyFloat x) (PyFloat y) =
     (if y = 0 then Inl ZeroDivisionError else Inr (PyFloat (x / y)))"
| "py_truediv (PyFloat x) (PyComplex w) =
     (if w = 0 then Inl ZeroDivisionError else Inr (PyComplex (complex_of_real x / w)))"
| "py_truediv (PyComplex z) y =
     (if to_complex y = 0 then Inl ZeroDivisionError
      else Inr (PyComplex (z / to_complex y)))"

text \<open>\<^verbatim>\<open>k * x\<close> for a float \<open>k\<close>.\<close>

fun py_scale :: "real \<Rightarrow> pynum \<Rightarrow> pynum" where
  "py_scale k (PyFloat x) = PyFloat (k * x)"
| "py_scale k (PyComplex z) = PyComplex (complex_of_real k * z)"

text \<open>\<^verbatim>\<open>math.log\<close>: a complex argument is a type error, a float that is not positive a
  domain error.\<close>

fun math_log :: "pynum \<Rightarrow> error + real" where
  "math_log (PyFloat x) =
     (if 0 < x then Inr (ln x) else Inl (ValueError ''math domain error''))"
| "math_log (PyComplex z) = Inl TypeError"

text \<open>\<^verbatim>\<open>str\<close> of an optional string, as an f-string prints it.\<close>

fun py_str :: "string option \<Rightarrow> string" where
  "py_str None = ''None''"
| "py_str (Some s) = s"

section \<open>The constants module\<close>

text \<open>
  \<^verbatim>\<open>prereise/gather/griddata/transmission/const.py\<close> is imported by the geometry module
  and is not part of the sources at hand. Its four names are parameters of the model: two
  numbers and two dictionaries from material names to numbers.
\<close>

record const =
  mu_0 :: real
  epsilon_0 :: real
  relative_permeability :: "string \<rightharpoonup> real"
  resistivity :: "string \<rightharpoonup> real"

section \<open>Conductor\<close>

text \<open>
  The five dataclass fields, and the two attributes \<^verbatim>\<open>permeability\<close> and \<^verbatim>\<open>resistivity\<close>
  that \<^verbatim>\<open>__post_init__\<close> sets when it looks a material up (absent: \<open>None\<close>). The source
  tests \<^verbatim>\<open>radius\<close> against \<^verbatim>\<open>None\<close>, so it is optional here too.
\<close>

record Conductor =
  radius :: "real option"
  material :: "string option"
  resistance_per_km :: "real option"
  gmr :: "real option"
  area :: "real option"
  permeability :: "real option"
  resistivity :: "real option"

text \<open>Lines 22 to 32: the two input checks. \<open>None\<close> means both passed.\<close>

definition Conductor_validate :: "Conductor \<Rightarrow> error option" where
  "Conductor_validate self =
     (if gmr self = None \<and> (material self = None \<or> radius self = None) then
        Some (ValueError
          ''If gmr is not provided, material and radius are needed to estimate'')
      else if Conductor.resistance_per_km self = None
              \<and> (material self = None \<or> radius self = None) then
        Some (ValueError
          ''If resistance_per_km is not provided, material and radius are needed to estimate'')
      else None)"

text \<open>Lines 34 to 41: the geometric mean radius from the material's permeability.\<close>

definition Conductor_estimate_gmr :: "const \<Rightarrow> Conductor \<Rightarrow> error + Conductor" where
  "Conductor_estimate_gmr k self =
     (case gmr self of
        Some g \<Rightarrow> Inr self
      | None \<Rightarrow>
          (case Option.bind (material self) (relative_permeability k) of
             None \<Rightarrow> Inl (ValueError
               (''Unknown permeability for '' @ py_str (material self)
                  @ '', can't calculate gmr''))
           | Some p \<Rightarrow>
               (case radius self of
                  None \<Rightarrow> Inl TypeError
                | Some r \<Rightarrow>
                    Inr (self\<lparr>permeability := Some p, gmr := Some (r * exp (p / 4))\<rparr>))))"

text \<open>Lines 43 to 54: the resistance from the material's resistivity and the area.\<close>

definition Conductor_estimate_resistance :: "const \<Rightarrow> Conductor \<Rightarrow> error + Conductor" where
  "Conductor_estimate_resistance k self =
     (case Conductor.resistance_per_km self of
        Some R \<Rightarrow> Inr self
      | None \<Rightarrow>
          (case Option.bind (material self) (const.resistivity k) of
             None \<Rightarrow> Inl (ValueError
               (''Unknown resistivity for '' @ py_str (material self)
                  @ '', can't calculate resistance''))
           | Some rho \<Rightarrow>
               (case (case area self of
                        Some A \<Rightarrow> Inr A
                      | None \<Rightarrow>
                          (case radius self of
                             None \<Rightarrow> Inl TypeError
                           | Some r \<Rightarrow> Inr (pi * r ^ 2))) of
                  Inl e \<Rightarrow> Inl e
                | Inr A \<Rightarrow>
                    if A = 0 then Inl ZeroDivisionError
                    else Inr (self\<lparr>Conductor.resistivity := Some rho, area := Some A,
                                Conductor.resistance_per_km := Some (rho * 1000 / A)\<rparr>))))"

definition Conductor_post_init :: "const \<Rightarrow> Conductor \<Rightarrow> error + Conductor" where
  "Conductor_post_init k self =
     (case Conductor_validate self of
        Some e \<Rightarrow> Inl e
      | None \<Rightarrow>
          (case Conductor_estimate_gmr k self of
             Inl e \<Rightarrow> Inl e
           | Inr self1 \<Rightarrow> Conductor_estimate_resistance k self1))"

text \<open>The dataclass fields as the constructor receives them.\<close>

definition Conductor_new ::
  "real option \<Rightarrow> string option \<Rightarrow> real option \<Rightarrow> real option \<Rightarrow> real option \<Rightarrow> Conductor" where
  "Conductor_new r m R g A =
     \<lparr>radius = r, material = m, resistance_per_km = R, gmr = g, area = A,
      permeability = None, resistivity = None\<rparr>"

section \<open>ConductorBundle\<close>

text \<open>
  The four dataclass fields, and the object once \<^verbatim>\<open>__post_init__\<close> has added its three
  attributes. The methods read the dataclass fields only, so they are defined on every
  extension of the first record.
\<close>

record ConductorBundle_init =
  n :: int
  spacing :: real
  conductor :: Conductor
  layout :: string

record ConductorBundle = ConductorBundle_init +
  resistance_per_km :: real
  spacing_L :: pynum
  spacing_C :: pynum

text \<open>
  In the three methods below \<open>conductor_distance\<close> is \<^verbatim>\<open>conductor.gmr\<close> or
  \<^verbatim>\<open>conductor.radius\<close>, either of which may be \<^verbatim>\<open>None\<close>; multiplying \<^verbatim>\<open>None\<close> raises.
  \<^verbatim>\<open>2 ** (1 / 2)\<close> has a positive base and is the float \<open>2 powr (1 / 2)\<close>.
\<close>

definition calculate_equivalent_spacing_circular ::
  "'z ConductorBundle_init_scheme \<Rightarrow> real option \<Rightarrow> error + pynum" where
  "calculate_equivalent_spacing_circular self conductor_distance =
     (if n self = 3 then
        (case conductor_distance of
           None \<Rightarrow> Inl TypeError
         | Some d \<Rightarrow>
             Inr (float_pow (d * spacing self ^ nat (n self - 1)) (1 / real_of_int (n self))))
      else if n self = 4 then
        (case conductor_distance of
           None \<Rightarrow> Inl TypeError
         | Some d \<Rightarrow> Inr (float_pow (d * spacing self ^ 3 * 2 powr (1 / 2)) (1 / 4)))
      else Inl (NotImplementedError ''Geometry calculations not implemented for n > 4''))"

definition calculate_equivalent_spacing_flat ::
  "'z ConductorBundle_init_scheme \<Rightarrow> real option \<Rightarrow> error + pynum" where
  "calculate_equivalent_spacing_flat self conductor_distance =
     (if n self = 3 then
        (case conductor_distance of
           None \<Rightarrow> Inl TypeError
         | Some d \<Rightarrow> Inr (float_pow (d * 2 * spacing self ^ 2) (1 / 3)))
      else if n self = 4 then
        (case conductor_distance of
           None \<Rightarrow> Inl TypeError
         | Some d \<Rightarrow> Inr (float_pow (d * 12 * spacing self ^ 3) (1 / 8)))
      else Inl (NotImplementedError ''Geometry calculations not implemented for n > 4''))"

definition calculate_equivalent_spacing ::
  "'z ConductorBundle_init_scheme \<Rightarrow> string \<Rightarrow> error + pynum" where
  "calculate_equivalent_spacing self type =
     (case (if type = ''inductance'' then Inr (gmr (conductor self))
            else if type = ''capacitance'' then Inr (radius (conductor self))
            else Inl (ValueError
                   (''type must be either 'inductance' or 'capacitance'' @ [CHR 0x27]))) of
        Inl e \<Rightarrow> Inl e
      | Inr conductor_distance \<Rightarrow>
          if n self = 2 then
            (case conductor_distance of
               None \<Rightarrow> Inl TypeError
             | Some d \<Rightarrow> Inr (float_pow (d * spacing self) (1 / 2)))
          else if layout self = ''circular'' then
            calculate_equivalent_spacing_circular self conductor_distance
          else if layout self = ''flat'' then
            calculate_equivalent_spacing_flat self conductor_distance
          else Inl (ValueError (''Unknown layout: '' @ layout self)))"

definition ConductorBundle_post_init :: "ConductorBundle_init \<Rightarrow> error + ConductorBundle" where
  "ConductorBundle_post_init self =
     (case Conductor.resistance_per_km (conductor self) of
        None \<Rightarrow> Inl TypeError
      | Some R \<Rightarrow>
          if n self = 0 then Inl ZeroDivisionError
          else
            (case calculate_equivalent_spacing self ''inductance'' of
               Inl e \<Rightarrow> Inl e
             | Inr sL \<Rightarrow>
                 (case calculate_equivalent_spacing self ''capacitance'' of
                    Inl e \<Rightarrow> Inl e
                  | Inr sC \<Rightarrow>
                      Inr \<lparr>n = n self, spacing = spacing self, conductor = conductor self,
                           layout = layout self,
                           resistance_per_km = R / real_of_int (n self),
                           spacing_L = sL, spacing_C = sC\<rparr>)))"

section \<open>Tower\<close>

record PhaseLocations =
  a :: "real \<times> real"
  b :: "real \<times> real"
  c :: "real \<times> real"

text \<open>
  The four dataclass fields; then the object as \<^verbatim>\<open>__post_init__\<close> fills it: the three
  phases, the attributes of \<^verbatim>\<open>calculate_distances\<close>, and the three results. The two
  dictionaries keep their insertion order.
\<close>

record Tower_init =
  locations :: PhaseLocations
  "bundle" :: ConductorBundle
  circuits :: int
  freq :: real

record Tower_phases = Tower_init +
  a :: "real \<times> real"
  b :: "real \<times> real"
  c :: "real \<times> real"

record Tower_distances = Tower_phases +
  true_distance :: "(string \<times> real) list"
  reflected_distance :: "(string \<times> real) list"
  equivalent_distance :: pynum
  equivalent_reflected_distance :: pynum
  equivalent_height :: pynum

record Tower = Tower_distances +
  resistance :: real
  inductance :: real
  capacitance :: real

text \<open>\<^verbatim>\<open>dict.values()\<close> and \<^verbatim>\<open>math.prod\<close>.\<close>

definition dict_values :: "(string \<times> real) list \<Rightarrow> real list" where
  "dict_values d = map snd d"

definition math_prod :: "real list \<Rightarrow> real" where
  "math_prod xs = fold (\<lambda>x acc. acc * x) xs 1"

definition calculate_distances :: "Tower_phases \<Rightarrow> Tower_distances" where
  "calculate_distances self =
     (let td = [(''ab'', sqrt ((fst (Tower_phases.a self) - fst (Tower_phases.b self)) ^ 2
                             + (snd (Tower_phases.a self) - snd (Tower_phases.b self)) ^ 2)),
                (''ac'', sqrt ((fst (Tower_phases.a self) - fst (Tower_phases.c self)) ^ 2
                             + (snd (Tower_phases.a self) - snd (Tower_phases.c self)) ^ 2)),
                (''bc'', sqrt ((fst (Tower_phases.b self) - fst (Tower_phases.c self)) ^ 2
                             + (snd (Tower_phases.b self) - snd (Tower_phases.c self)) ^ 2))];
          rd = [(''ab'', sqrt ((fst (Tower_phases.a self) - fst (Tower_phases.b self)) ^ 2
                             + (snd (Tower_phases.a self) + snd (Tower_phases.b self)) ^ 2)),
                (''ac'', sqrt ((fst (Tower_phases.a self) - fst (Tower_phases.c self)) ^ 2
                             + (snd (Tower_phases.a self) + snd (Tower_phases.c self)) ^ 2)),
                (''bc'', sqrt ((fst (Tower_phases.b self) - fst (Tower_phases.c self)) ^ 2
                             + (snd (Tower_phases.b self) + snd (Tower_phases.c self)) ^ 2))]
      in \<lparr>locations = locations self, bundle = bundle self, circuits = circuits self,
          freq = freq self,
          a = Tower_phases.a self, b = Tower_phases.b self, c = Tower_phases.c self,
          true_distance = td,
          reflected_distance = rd,
          equivalent_distance = float_pow (math_prod (dict_values td)) (1 / 3),
          equivalent_reflected_distance = float_pow (math_prod (dict_values rd)) (1 / 3),
          equivalent_height =
            float_pow (math_prod [snd (Tower_phases.a self), snd (Tower_phases.b self),
                             snd (Tower_phases.c self)]) (1 / 3)\<rparr>)"

definition calculate_inductance_per_km ::
  "const \<Rightarrow> 'z Tower_distances_scheme \<Rightarrow> error + real" where
  "calculate_inductance_per_km k self =
     (case py_truediv (equivalent_distance self) (spacing_L (bundle self)) of
        Inl e \<Rightarrow> Inl e
      | Inr q \<Rightarrow>
          (case math_log q of
             Inl e \<Rightarrow> Inl e
           | Inr l \<Rightarrow> Inr (mu_0 k / (2 * pi) * l)))"

definition calculate_shunt_capacitance_per_km ::
  "const \<Rightarrow> 'z Tower_distances_scheme \<Rightarrow> error + real" where
  "calculate_shunt_capacitance_per_km k self =
     (case py_truediv (equivalent_distance self) (spacing_C (bundle self)) of
        Inl e \<Rightarrow> Inl e
      | Inr q1 \<Rightarrow>
          (case math_log q1 of
             Inl e \<Rightarrow> Inl e
           | Inr l1 \<Rightarrow>
               (case py_truediv (equivalent_reflected_distance self)
                                (py_scale 2 (equivalent_height self)) of
                  Inl e \<Rightarrow> Inl e
                | Inr q2 \<Rightarrow>
                    (case math_log q2 of
                       Inl e \<Rightarrow> Inl e
                     | Inr l2 \<Rightarrow>
                         if l1 - l2 = 0 then Inl ZeroDivisionError
                         else Inr ((2 * pi * epsilon_0 k) / (l1 - l2))))))"

definition Tower_post_init :: "const \<Rightarrow> Tower_init \<Rightarrow> error + Tower" where
  "Tower_post_init k self =
     (if circuits self \<noteq> 1 then
        Inl (ValueError ''Can't calculate geometry for multi-circuit lines yet'')
      else
        (let d = calculate_distances
                   \<lparr>locations = locations self, bundle = bundle self,
                    circuits = circuits self, freq = freq self,
                    a = PhaseLocations.a (locations self),
                    b = PhaseLocations.b (locations self),
                    c = PhaseLocations.c (locations self)\<rparr>
         in case calculate_inductance_per_km k d of
              Inl e \<Rightarrow> Inl e
            | Inr L \<Rightarrow>
                (case calculate_shunt_capacitance_per_km k d of
                   Inl e \<Rightarrow> Inl e
                 | Inr C \<Rightarrow>
                     Inr \<lparr>locations = locations d, bundle = bundle d,
                          circuits = circuits d, freq = freq d,
                          a = Tower_phases.a d, b = Tower_phases.b d, c = Tower_phases.c d,
                          true_distance = true_distance d,
                          reflected_distance = reflected_distance d,
                          equivalent_distance = equivalent_distance d,
                          equivalent_reflected_distance = equivalent_reflected_distance d,
                          equivalent_height = equivalent_height d,
                          resistance = ConductorBundle.resistance_per_km (bundle d),
                          inductance = L, capacitance = C\<rparr>)))"

section \<open>The specification's words\<close>

text \<open>
  The quantities as the specification names them, to compare with what the code computes:
  the Euclidean distance of two phases, the same distance with the heights added (the
  second phase mirrored at the ground), the geometric mean of three numbers as the cube
  root of their product, and the principal square root (imaginary for a negative number).
\<close>

definition spec_distance :: "real \<times> real \<Rightarrow> real \<times> real \<Rightarrow> real" where
  "spec_distance p q = sqrt ((fst p - fst q) ^ 2 + (snd p - snd q) ^ 2)"

definition spec_reflected_distance :: "real \<times> real \<Rightarrow> real \<times> real \<Rightarrow> real" where
  "spec_reflected_distance p q = sqrt ((fst p - fst q) ^ 2 + (snd p + snd q) ^ 2)"

definition spec_geometric_mean :: "real \<Rightarrow> real \<Rightarrow> real \<Rightarrow> real" where
  "spec_geometric_mean x y z = root 3 (x * y * z)"

definition principal_sqrt :: "real \<Rightarrow> pynum" where
  "principal_sqrt x =
     (if 0 \<le> x then PyFloat (sqrt x) else PyComplex (csqrt (complex_of_real x)))"

section \<open>Inputs of the test suite\<close>

text \<open>
  \<^verbatim>\<open>tests/test_geometry.py\<close> builds a conductor from \<^verbatim>\<open>"aluminum"\<close> alone, so both
  dictionaries know that material, and says of \<^verbatim>\<open>"ACSR"\<close> that there are no constants
  for it. \<open>test_const\<close> is an instance of the constants module with these two properties
  and the SI values per kilometre; the other definitions are the objects of \<^verbatim>\<open>test_tower\<close>.
\<close>

definition test_const :: const where
  "test_const =
     \<lparr>mu_0 = 4 * pi / 10 ^ 4, epsilon_0 = 8854 / 10 ^ 12,
      relative_permeability = [''aluminum'' \<mapsto> 1],
      resistivity = [''aluminum'' \<mapsto> 265 / 10 ^ 10]\<rparr>"

definition test_tower_conductor :: Conductor where
  "test_tower_conductor =
     Conductor_new (Some (1519 / 100000)) (Some ''ACSR'') (Some (672 / 10000))
       (Some (12253 / 1000000)) None"

definition test_tower_bundle :: ConductorBundle_init where
  "test_tower_bundle =
     \<lparr>n = 2, spacing = 15 / 10 * (3048 / 10000), conductor = test_tower_conductor,
      layout = ''circular''\<rparr>"

definition test_tower_locations :: PhaseLocations where
  "test_tower_locations =
     \<lparr>PhaseLocations.a = (- 24 * (3048 / 10000), 90 * (3048 / 10000)),
      PhaseLocations.b = (0, 90 * (3048 / 10000)),
      PhaseLocations.c = (24 * (3048 / 10000), 90 * (3048 / 10000))\<rparr>"

definition test_tower :: "ConductorBundle \<Rightarrow> Tower_init" where
  "test_tower bd =
     \<lparr>locations = test_tower_locations, bundle = bd, circuits = 1, freq = 60\<rparr>"

section \<open>Arithmetic of the Python values\<close>

lemma float_pow_nonneg: "0 \<le> x \<Longrightarrow> float_pow x p = PyFloat (x powr p)"
  by (simp add: float_pow_def)


lemma float_pow_half: "float_pow x (1 / 2) = principal_sqrt x"
  by (auto simp: float_pow_def principal_sqrt_def powr_half_sqrt)

lemma math_log_InrD: "math_log q = Inr l \<Longrightarrow> \<exists>x. q = PyFloat x \<and> 0 < x \<and> l = ln x"
  by (cases q) (auto split: if_splits)

lemma py_truediv_PyFloatD:
  "py_truediv p q = Inr (PyFloat x) \<Longrightarrow>
     \<exists>u v. p = PyFloat u \<and> q = PyFloat v \<and> v \<noteq> 0 \<and> x = u / v"
  by (cases p; cases q) (auto split: if_splits)


lemma cube_root_powr: "0 \<le> x \<Longrightarrow> x powr (1 / 3) = root 3 x"
  using root_powr_inverse [of 3 x] by simp

lemma math_prod3: "math_prod [x, y, z] = x * y * z"
  by (simp add: math_prod_def)

lemma sqrt_power6: "0 \<le> q \<Longrightarrow> sqrt q ^ 6 = q ^ 3"
proof -
  assume q: "0 \<le> q"
  have "sqrt q ^ 6 = (sqrt q ^ 2) ^ 3" by (simp add: power_mult [symmetric])
  then show ?thesis using q by simp
qed

lemma powr_base_inj:
  fixes x y p :: real
  assumes "0 < p" "0 \<le> x" "0 \<le> y"
  shows "(x powr p = y powr p) = (x = y)"
proof
  assume eq: "x powr p = y powr p"
  show "x = y"
  proof (rule ccontr)
    assume "x \<noteq> y"
    then consider "x < y" | "y < x" by linarith
    then show False
    proof cases
      case 1
      then have "x powr p < y powr p" using assms by (simp add: powr_less_mono2)
      with eq show False by simp
    next
      case 2
      then have "y powr p < x powr p" using assms by (simp add: powr_less_mono2)
      with eq show False by simp
    qed
  qed
qed simp

lemma quartic_vs_octic:
  fixes A :: real
  assumes "0 < A"
  shows "((A * 2 powr (1 / 2)) powr (1 / 4) = (12 * A) powr (1 / 8)) = (A = 6)"
proof -
  have x: "0 < A * 2 powr (1 / 2)" using assms by simp
  have "(A * 2 powr (1 / 2)) powr (1 / 4) = ((A * 2 powr (1 / 2)) powr 2) powr (1 / 8)"
    by (simp add: powr_powr)
  also have "(A * 2 powr (1 / 2)) powr 2 = (A * 2 powr (1 / 2)) ^ 2"
    using x by simp
  also have "\<dots> = A ^ 2 * 2"
    by (simp add: power_mult_distrib powr_half_sqrt)
  finally have "(A * 2 powr (1 / 2)) powr (1 / 4) = (A ^ 2 * 2) powr (1 / 8)" .
  then have "((A * 2 powr (1 / 2)) powr (1 / 4) = (12 * A) powr (1 / 8))
               = (A ^ 2 * 2 = 12 * A)"
    using assms powr_base_inj [of "1 / 8" "A ^ 2 * 2" "12 * A"] by simp
  also have "\<dots> = (A = 6)"
    using assms by (auto simp: power2_eq_square)
  finally show ?thesis .
qed

section \<open>Conductor: what construction does\<close>

lemmas Conductor_defs =
  Conductor_post_init_def Conductor_validate_def Conductor_estimate_gmr_def
  Conductor_estimate_resistance_def

lemma Conductor_post_init_gmr_unknown:
  assumes "gmr self = None"
    and "material self = None \<or> radius self = None
         \<or> Option.bind (material self) (relative_permeability k) = None"
  shows "\<exists>msg. Conductor_post_init k self = Inl (ValueError msg)"
  using assms
  by (auto simp: Conductor_defs split: option.splits sum.splits)

lemma Conductor_post_init_resistance_unknown:
  assumes "Conductor.resistance_per_km self = None"
    and "material self = None \<or> radius self = None
         \<or> Option.bind (material self) (const.resistivity k) = None"
  shows "\<exists>msg. Conductor_post_init k self = Inl (ValueError msg)"
  using assms
  by (auto simp: Conductor_defs split: option.splits sum.splits)

lemma Conductor_post_init_gmr:
  assumes "Conductor_post_init k self = Inr c'"
  shows "(\<exists>g. gmr self = Some g \<and> gmr c' = Some g) \<or>
         (gmr self = None \<and>
            (\<exists>m p r. material self = Some m \<and> relative_permeability k m = Some p
               \<and> radius self = Some r \<and> gmr c' = Some (r * exp (p / 4))))"
  using assms
  by (auto simp: Conductor_defs split: option.splits sum.splits if_splits)

lemma Conductor_post_init_resistance:
  assumes "Conductor_post_init k self = Inr c'"
  shows "(\<exists>R. Conductor.resistance_per_km self = Some R
               \<and> Conductor.resistance_per_km c' = Some R) \<or>
         (Conductor.resistance_per_km self = None \<and>
           (\<exists>m rho r. material self = Some m \<and> const.resistivity k m = Some rho
             \<and> radius self = Some r
             \<and> area c' = Some (case area self of Some A \<Rightarrow> A | None \<Rightarrow> pi * r ^ 2)
             \<and> Conductor.resistance_per_km c'
                 = Some (rho * 1000 / (case area self of Some A \<Rightarrow> A | None \<Rightarrow> pi * r ^ 2))))"
  using assms
  by (auto simp: Conductor_defs split: option.splits sum.splits if_splits)

lemma Conductor_post_init_succeeds:
  assumes "material self = Some m" "radius self = Some r"
    and "gmr self \<noteq> None \<or> relative_permeability k m \<noteq> None"
    and "Conductor.resistance_per_km self \<noteq> None \<or>
           (const.resistivity k m \<noteq> None
            \<and> (case area self of Some A \<Rightarrow> A | None \<Rightarrow> pi * r ^ 2) \<noteq> 0)"
  shows "\<exists>c'. Conductor_post_init k self = Inr c'"
  using assms
  by (auto simp: Conductor_defs split: option.splits sum.splits if_splits)

section \<open>Conductor: the claims\<close>

text \<open>
  C9. A Conductor built with both \<open>gmr\<close> and \<open>resistance_per_km\<close> given is built for any
  material (\<open>None\<close> and names outside both tables included), any radius and any area: the
  object is the input unchanged, so the two values are the ones supplied, the area is left
  as supplied and neither lookup attribute is set. The statement holds for every
  instance \<open>k\<close> of the constants module and its right-hand side does not mention \<open>k\<close>: the
  tables are never consulted.
\<close>

theorem Conductor_explicit_values_kept:
  "Conductor_post_init k (Conductor_new r0 m0 (Some R0) (Some g0) A0)
     = Inr (Conductor_new r0 m0 (Some R0) (Some g0) A0)"
  by (simp add: Conductor_defs Conductor_new_def)

theorem Conductor_explicit_values_kept_witness:
  "Conductor_post_init test_const test_tower_conductor = Inr test_tower_conductor
   \<and> relative_permeability test_const ''ACSR'' = None
   \<and> const.resistivity test_const ''ACSR'' = None
   \<and> area test_tower_conductor = None"
  using Conductor_explicit_values_kept
    [of test_const "Some (1519 / 100000)" "Some ''ACSR''" "672 / 10000" "12253 / 1000000" None]
  by (simp add: test_tower_conductor_def test_const_def Conductor_new_def)

text \<open>
  C8. When construction succeeds, \<open>gmr\<close> and \<open>resistance_per_km\<close> of the object are
  numbers: each is the value supplied, or, when none was supplied, the value derived from
  the material's constant and the radius (for the resistance: and the area, which is the
  one supplied or \<open>pi * radius\<^sup>2\<close>). When \<open>gmr\<close> is absent and the material or the radius is
  absent or the material has no permeability, construction fails with a \<open>ValueError\<close>; and
  likewise for the resistance and the resistivity.
\<close>

theorem Conductor_resolved:
  "(\<forall>c'. Conductor_post_init k self = Inr c' \<longrightarrow>
      (\<exists>g. gmr c' = Some g \<and>
         (gmr self = Some g \<or>
          (gmr self = None \<and>
             (\<exists>m p r. material self = Some m \<and> relative_permeability k m = Some p
                \<and> radius self = Some r \<and> g = r * exp (p / 4)))))
      \<and> (\<exists>R. Conductor.resistance_per_km c' = Some R \<and>
         (Conductor.resistance_per_km self = Some R \<or>
          (Conductor.resistance_per_km self = None \<and>
             (\<exists>m rho r. material self = Some m \<and> const.resistivity k m = Some rho
                \<and> radius self = Some r
                \<and> R = rho * 1000 / (case area self of Some A \<Rightarrow> A | None \<Rightarrow> pi * r ^ 2))))))
   \<and> (gmr self = None
        \<and> (material self = None \<or> radius self = None
            \<or> Option.bind (material self) (relative_permeability k) = None)
      \<longrightarrow> (\<exists>msg. Conductor_post_init k self = Inl (ValueError msg)))
   \<and> (Conductor.resistance_per_km self = None
        \<and> (material self = None \<or> radius self = None
            \<or> Option.bind (material self) (const.resistivity k) = None)
      \<longrightarrow> (\<exists>msg. Conductor_post_init k self = Inl (ValueError msg)))"
proof (intro conjI allI impI)
  fix c' assume ok: "Conductor_post_init k self = Inr c'"
  show "\<exists>g. gmr c' = Some g \<and>
         (gmr self = Some g \<or>
          (gmr self = None \<and>
             (\<exists>m p r. material self = Some m \<and> relative_permeability k m = Some p
                \<and> radius self = Some r \<and> g = r * exp (p / 4))))"
    using Conductor_post_init_gmr [OF ok] by auto
  show "\<exists>R. Conductor.resistance_per_km c' = Some R \<and>
         (Conductor.resistance_per_km self = Some R \<or>
          (Conductor.resistance_per_km self = None \<and>
             (\<exists>m rho r. material self = Some m \<and> const.resistivity k m = Some rho
                \<and> radius self = Some r
                \<and> R = rho * 1000 / (case area self of Some A \<Rightarrow> A | None \<Rightarrow> pi * r ^ 2))))"
    using Conductor_post_init_resistance [OF ok] by auto
next
  assume "gmr self = None
        \<and> (material self = None \<or> radius self = None
            \<or> Option.bind (material self) (relative_permeability k) = None)"
  then show "\<exists>msg. Conductor_post_init k self = Inl (ValueError msg)"
    using Conductor_post_init_gmr_unknown [of self k] by blast
next
  assume "Conductor.resistance_per_km self = None
        \<and> (material self = None \<or> radius self = None
            \<or> Option.bind (material self) (const.resistivity k) = None)"
  then show "\<exists>msg. Conductor_post_init k self = Inl (ValueError msg)"
    using Conductor_post_init_resistance_unknown [of self k] by blast
qed

theorem Conductor_resolved_witness:
  "(\<exists>c'. Conductor_post_init test_const
            (Conductor_new (Some (1519 / 100000)) (Some ''aluminum'') None None None) = Inr c'
        \<and> gmr c' = Some (1519 / 100000 * exp (1 / 4))
        \<and> Conductor.resistance_per_km c'
            = Some (265 / 10 ^ 10 * 1000 / (pi * (1519 / 100000) ^ 2)))
   \<and> (\<exists>msg. Conductor_post_init test_const
            (Conductor_new (Some (1519 / 100000)) None (Some (672 / 10000)) None None)
          = Inl (ValueError msg))
   \<and> (\<exists>msg. Conductor_post_init test_const
            (Conductor_new (Some (1519 / 100000)) (Some ''ACSR'') None (Some (12253 / 1000000)) None)
          = Inl (ValueError msg))"
proof (intro conjI)
  let ?s = "Conductor_new (Some (1519 / 100000)) (Some ''aluminum'') None None None"
  obtain c' where ok: "Conductor_post_init test_const ?s = Inr c'"
    using Conductor_post_init_succeeds [of ?s "''aluminum''" "1519 / 100000" test_const]
    by (auto simp: Conductor_new_def test_const_def)
  from Conductor_resolved [of test_const ?s, THEN conjunct1, rule_format, OF ok]
  have "gmr c' = Some (1519 / 100000 * exp (1 / 4))
        \<and> Conductor.resistance_per_km c'
            = Some (265 / 10 ^ 10 * 1000 / (pi * (1519 / 100000) ^ 2))"
    by (auto simp: Conductor_new_def test_const_def
             simp del: eq_divide_eq_numeral1 divide_eq_eq_numeral1)
  with ok show "\<exists>c'. Conductor_post_init test_const ?s = Inr c'
        \<and> gmr c' = Some (1519 / 100000 * exp (1 / 4))
        \<and> Conductor.resistance_per_km c'
            = Some (265 / 10 ^ 10 * 1000 / (pi * (1519 / 100000) ^ 2))"
    by blast
next
  show "\<exists>msg. Conductor_post_init test_const
            (Conductor_new (Some (1519 / 100000)) None (Some (672 / 10000)) None None)
          = Inl (ValueError msg)"
    using Conductor_resolved
      [of test_const "Conductor_new (Some (1519 / 100000)) None (Some (672 / 10000)) None None"]
    by (simp add: Conductor_new_def)
next
  show "\<exists>msg. Conductor_post_init test_const
            (Conductor_new (Some (1519 / 100000)) (Some ''ACSR'') None (Some (12253 / 1000000)) None)
          = Inl (ValueError msg)"
    using Conductor_resolved
      [of test_const
          "Conductor_new (Some (1519 / 100000)) (Some ''ACSR'') None (Some (12253 / 1000000)) None"]
    by (simp add: Conductor_new_def test_const_def)
qed

text \<open>
  C3, as stated, fails: a material with a permeability does not make construction succeed.
  Here \<^verbatim>\<open>Conductor(radius=0.01519, material="aluminum", area=0.0)\<close> finds the permeability
  and then divides the resistivity by the zero area.
\<close>

theorem Conductor_gmr_material_known_fails:
  "relative_permeability test_const ''aluminum'' = Some 1
   \<and> Conductor_post_init test_const
        (Conductor_new (Some (1519 / 100000)) (Some ''aluminum'') None None (Some 0))
      = Inl ZeroDivisionError"
  by (simp add: Conductor_defs Conductor_new_def test_const_def)

text \<open>
  C3, amended. For a Conductor built without \<open>gmr\<close>: if the material has a permeability,
  the radius is given and the resistance can be resolved (it is supplied, or the material
  has a resistivity and the area, supplied or \<open>pi * radius\<^sup>2\<close>, is not zero), construction
  succeeds with \<open>gmr = radius * exp (permeability / 4)\<close>; whenever construction succeeds,
  \<open>gmr\<close> has that value; and if the material is absent or has no permeability, construction
  fails with a \<open>ValueError\<close>.
\<close>

theorem Conductor_gmr_from_material:
  assumes "gmr self = None"
  shows "(\<forall>m p r. material self = Some m \<and> relative_permeability k m = Some p
              \<and> radius self = Some r
              \<and> (Conductor.resistance_per_km self \<noteq> None
                 \<or> (const.resistivity k m \<noteq> None
                    \<and> (case area self of Some A \<Rightarrow> A | None \<Rightarrow> pi * r ^ 2) \<noteq> 0))
            \<longrightarrow> (\<exists>c'. Conductor_post_init k self = Inr c' \<and> gmr c' = Some (r * exp (p / 4))))
       \<and> (\<forall>c'. Conductor_post_init k self = Inr c' \<longrightarrow>
             (\<exists>m p r. material self = Some m \<and> relative_permeability k m = Some p
                \<and> radius self = Some r \<and> gmr c' = Some (r * exp (p / 4))))
       \<and> (Option.bind (material self) (relative_permeability k) = None
            \<longrightarrow> (\<exists>msg. Conductor_post_init k self = Inl (ValueError msg)))"
proof (intro conjI allI impI)
  fix m p r
  assume h: "material self = Some m \<and> relative_permeability k m = Some p
              \<and> radius self = Some r
              \<and> (Conductor.resistance_per_km self \<noteq> None
                 \<or> (const.resistivity k m \<noteq> None
                    \<and> (case area self of Some A \<Rightarrow> A | None \<Rightarrow> pi * r ^ 2) \<noteq> 0))"
  then obtain c' where ok: "Conductor_post_init k self = Inr c'"
    using Conductor_post_init_succeeds [of self m r k] by auto
  from Conductor_post_init_gmr [OF ok] assms h have "gmr c' = Some (r * exp (p / 4))"
    by auto
  with ok show "\<exists>c'. Conductor_post_init k self = Inr c' \<and> gmr c' = Some (r * exp (p / 4))"
    by blast
next
  fix c' assume ok: "Conductor_post_init k self = Inr c'"
  from Conductor_post_init_gmr [OF ok] assms
  show "\<exists>m p r. material self = Some m \<and> relative_permeability k m = Some p
                \<and> radius self = Some r \<and> gmr c' = Some (r * exp (p / 4))"
    by auto
next
  assume "Option.bind (material self) (relative_permeability k) = None"
  then show "\<exists>msg. Conductor_post_init k self = Inl (ValueError msg)"
    using Conductor_post_init_gmr_unknown [of self k] assms by blast
qed

theorem Conductor_gmr_from_material_witness:
  "(\<exists>c'. Conductor_post_init test_const
            (Conductor_new (Some (1519 / 100000)) (Some ''aluminum'') None None None) = Inr c'
        \<and> gmr c' = Some (1519 / 100000 * exp (1 / 4)))
   \<and> (\<exists>msg. Conductor_post_init test_const
            (Conductor_new (Some (1519 / 100000)) (Some ''ACSR'') (Some (672 / 10000)) None None)
          = Inl (ValueError msg))"
proof (intro conjI)
  let ?s = "Conductor_new (Some (1519 / 100000)) (Some ''aluminum'') None None None"
  have g: "gmr ?s = None" by (simp add: Conductor_new_def)
  note known = Conductor_gmr_from_material
    [OF g, of test_const, THEN conjunct1, rule_format, of "''aluminum''" 1 "1519 / 100000"]
  show "\<exists>c'. Conductor_post_init test_const ?s = Inr c'
        \<and> gmr c' = Some (1519 / 100000 * exp (1 / 4))"
    by (rule known) (simp add: Conductor_new_def test_const_def)
next
  let ?s = "Conductor_new (Some (1519 / 100000)) (Some ''ACSR'') (Some (672 / 10000)) None None"
  have g: "gmr ?s = None" by (simp add: Conductor_new_def)
  note unknown = Conductor_gmr_from_material
    [OF g, of test_const, THEN conjunct2, THEN conjunct2, rule_format]
  show "\<exists>msg. Conductor_post_init test_const ?s = Inl (ValueError msg)"
    by (rule unknown) (simp add: Conductor_new_def test_const_def)
qed

text \<open>
  C4, as stated, fails: a material with a resistivity does not make construction succeed.
  \<^verbatim>\<open>Conductor(radius=0.01519, material="aluminum", gmr=0.012253, area=0.0)\<close> finds the
  resistivity and divides it by the zero area.
\<close>

theorem Conductor_resistance_material_known_fails:
  "const.resistivity test_const ''aluminum'' = Some (265 / 10 ^ 10)
   \<and> Conductor_post_init test_const
        (Conductor_new (Some (1519 / 100000)) (Some ''aluminum'') None
           (Some (12253 / 1000000)) (Some 0))
      = Inl ZeroDivisionError"
  by (simp add: Conductor_defs Conductor_new_def test_const_def)

text \<open>
  C4, amended. For a Conductor built without \<open>resistance_per_km\<close>: if the material has a
  resistivity, the radius is given, \<open>gmr\<close> can be resolved (it is supplied, or the material
  has a permeability) and the area, supplied or defaulting to \<open>pi * radius\<^sup>2\<close>, is not zero,
  construction succeeds with that area and
  \<open>resistance_per_km = resistivity * 1000 / area\<close>; whenever construction succeeds, the area
  and the resistance have these values; and if the material is absent or has no
  resistivity, construction fails with a \<open>ValueError\<close>.
\<close>

theorem Conductor_resistance_from_material:
  assumes "Conductor.resistance_per_km self = None"
  shows "(\<forall>m rho r. material self = Some m \<and> const.resistivity k m = Some rho
              \<and> radius self = Some r
              \<and> (gmr self \<noteq> None \<or> relative_permeability k m \<noteq> None)
              \<and> (case area self of Some A \<Rightarrow> A | None \<Rightarrow> pi * r ^ 2) \<noteq> 0
            \<longrightarrow> (\<exists>c'. Conductor_post_init k self = Inr c'
                  \<and> area c' = Some (case area self of Some A \<Rightarrow> A | None \<Rightarrow> pi * r ^ 2)
                  \<and> Conductor.resistance_per_km c'
                      = Some (rho * 1000
                              / (case area self of Some A \<Rightarrow> A | None \<Rightarrow> pi * r ^ 2))))
       \<and> (\<forall>c'. Conductor_post_init k self = Inr c' \<longrightarrow>
             (\<exists>m rho r. material self = Some m \<and> const.resistivity k m = Some rho
                \<and> radius self = Some r
                \<and> area c' = Some (case area self of Some A \<Rightarrow> A | None \<Rightarrow> pi * r ^ 2)
                \<and> Conductor.resistance_per_km c'
                    = Some (rho * 1000
                            / (case area self of Some A \<Rightarrow> A | None \<Rightarrow> pi * r ^ 2))))
       \<and> (Option.bind (material self) (const.resistivity k) = None
            \<longrightarrow> (\<exists>msg. Conductor_post_init k self = Inl (ValueError msg)))"
proof (intro conjI allI impI)
  fix m rho r
  assume h: "material self = Some m \<and> const.resistivity k m = Some rho
              \<and> radius self = Some r
              \<and> (gmr self \<noteq> None \<or> relative_permeability k m \<noteq> None)
              \<and> (case area self of Some A \<Rightarrow> A | None \<Rightarrow> pi * r ^ 2) \<noteq> 0"
  then obtain c' where ok: "Conductor_post_init k self = Inr c'"
    using Conductor_post_init_succeeds [of self m r k] by auto
  from Conductor_post_init_resistance [OF ok] assms h
  have "area c' = Some (case area self of Some A \<Rightarrow> A | None \<Rightarrow> pi * r ^ 2)
        \<and> Conductor.resistance_per_km c'
            = Some (rho * 1000 / (case area self of Some A \<Rightarrow> A | None \<Rightarrow> pi * r ^ 2))"
    by auto
  with ok show "\<exists>c'. Conductor_post_init k self = Inr c'
                  \<and> area c' = Some (case area self of Some A \<Rightarrow> A | None \<Rightarrow> pi * r ^ 2)
                  \<and> Conductor.resistance_per_km c'
                      = Some (rho * 1000
                              / (case area self of Some A \<Rightarrow> A | None \<Rightarrow> pi * r ^ 2))"
    by blast
next
  fix c' assume ok: "Conductor_post_init k self = Inr c'"
  from Conductor_post_init_resistance [OF ok] assms
  show "\<exists>m rho r. material self = Some m \<and> const.resistivity k m = Some rho
                \<and> radius self = Some r
                \<and> area c' = Some (case area self of Some A \<Rightarrow> A | None \<Rightarrow> pi * r ^ 2)
                \<and> Conductor.resistance_per_km c'
                    = Some (rho * 1000
                            / (case area self of Some A \<Rightarrow> A | None \<Rightarrow> pi * r ^ 2))"
    by auto
next
  assume "Option.bind (material self) (const.resistivity k) = None"
  then show "\<exists>msg. Conductor_post_init k self = Inl (ValueError msg)"
    using Conductor_post_init_resistance_unknown [of self k] assms by blast
qed

theorem Conductor_resistance_from_material_witness:
  "(\<exists>c'. Conductor_post_init test_const
            (Conductor_new (Some (1519 / 100000)) (Some ''aluminum'') None None None) = Inr c'
        \<and> area c' = Some (pi * (1519 / 100000) ^ 2)
        \<and> Conductor.resistance_per_km c'
            = Some (265 / 10 ^ 10 * 1000 / (pi * (1519 / 100000) ^ 2)))
   \<and> (\<exists>msg. Conductor_post_init test_const
            (Conductor_new (Some (1519 / 100000)) (Some ''ACSR'') None (Some (12253 / 1000000)) None)
          = Inl (ValueError msg))"
proof (intro conjI)
  let ?s = "Conductor_new (Some (1519 / 100000)) (Some ''aluminum'') None None None"
  have R: "Conductor.resistance_per_km ?s = None" by (simp add: Conductor_new_def)
  have A: "(case area ?s of Some A \<Rightarrow> A | None \<Rightarrow> pi * (1519 / 100000) ^ 2)
             = pi * (1519 / 100000) ^ 2"
    by (simp add: Conductor_new_def)
  note known = Conductor_resistance_from_material
    [OF R, of test_const, THEN conjunct1, rule_format,
     of "''aluminum''" "265 / 10 ^ 10" "1519 / 100000", unfolded A]
  show "\<exists>c'. Conductor_post_init test_const ?s = Inr c'
        \<and> area c' = Some (pi * (1519 / 100000) ^ 2)
        \<and> Conductor.resistance_per_km c'
            = Some (265 / 10 ^ 10 * 1000 / (pi * (1519 / 100000) ^ 2))"
    by (rule known) (simp add: Conductor_new_def test_const_def)
next
  let ?s = "Conductor_new (Some (1519 / 100000)) (Some ''ACSR'') None (Some (12253 / 1000000)) None"
  have R: "Conductor.resistance_per_km ?s = None" by (simp add: Conductor_new_def)
  note unknown = Conductor_resistance_from_material
    [OF R, of test_const, THEN conjunct2, THEN conjunct2, rule_format]
  show "\<exists>msg. Conductor_post_init test_const ?s = Inl (ValueError msg)"
    by (rule unknown) (simp add: Conductor_new_def test_const_def)
qed

section \<open>ConductorBundle: what the methods compute\<close>

lemmas ConductorBundle_defs =
  ConductorBundle_post_init_def calculate_equivalent_spacing_def
  calculate_equivalent_spacing_circular_def calculate_equivalent_spacing_flat_def

lemma two_conductors_spacing:
  assumes "n self = 2"
  shows "calculate_equivalent_spacing self ''inductance''
           = (case gmr (conductor self) of
                None \<Rightarrow> Inl TypeError
              | Some g \<Rightarrow> Inr (principal_sqrt (g * spacing self)))"
    and "calculate_equivalent_spacing self ''capacitance''
           = (case radius (conductor self) of
                None \<Rightarrow> Inl TypeError
              | Some r \<Rightarrow> Inr (principal_sqrt (r * spacing self)))"
  using assms
  by (simp_all add: calculate_equivalent_spacing_def float_pow_half split: option.splits)

lemma three_conductors_differ:
  assumes "0 < d" "0 < spacing self" "n self = 3"
    and that: "n self' = n self" "spacing self' = spacing self"
  shows "calculate_equivalent_spacing_circular self (Some d)
            \<noteq> calculate_equivalent_spacing_flat self' (Some d)"
proof -
  have pos: "0 < d * spacing self ^ 2" using assms by simp
  have ne: "d * spacing self ^ 2 \<noteq> d * 2 * spacing self ^ 2" using assms by simp
  have "0 \<le> d * spacing self ^ 2" "0 \<le> d * 2 * spacing self ^ 2" using pos by simp_all
  then have "(d * spacing self ^ 2) powr (1 / 3) \<noteq> (d * 2 * spacing self ^ 2) powr (1 / 3)"
    using ne powr_base_inj [of "1 / 3" "d * spacing self ^ 2" "d * 2 * spacing self ^ 2"]
    by simp
  moreover have "calculate_equivalent_spacing_circular self (Some d)
                   = Inr (PyFloat ((d * spacing self ^ 2) powr (1 / 3)))"
    using assms pos by (simp add: calculate_equivalent_spacing_circular_def float_pow_nonneg)
  moreover have "calculate_equivalent_spacing_flat self' (Some d)
                   = Inr (PyFloat ((d * 2 * spacing self ^ 2) powr (1 / 3)))"
    using assms pos that by (simp add: calculate_equivalent_spacing_flat_def float_pow_nonneg)
  ultimately show ?thesis by simp
qed

lemma four_conductors_coincide:
  assumes "0 < d" "0 < spacing self" "n self = 4"
    and "n self' = n self" "spacing self' = spacing self"
  shows "(calculate_equivalent_spacing_circular self (Some d)
            = calculate_equivalent_spacing_flat self' (Some d)) = (d * spacing self ^ 3 = 6)"
proof -
  have pos: "0 < d * spacing self ^ 3" using assms by simp
  have "0 \<le> d * spacing self ^ 3 * 2 powr (1 / 2)"
    using pos by simp
  from float_pow_nonneg [OF this]
  have c: "calculate_equivalent_spacing_circular self (Some d)
                   = Inr (PyFloat ((d * spacing self ^ 3 * 2 powr (1 / 2)) powr (1 / 4)))"
    using assms by (simp add: calculate_equivalent_spacing_circular_def)
  have "0 \<le> d * 12 * spacing self ^ 3" using pos by simp
  from float_pow_nonneg [OF this]
  have f: "calculate_equivalent_spacing_flat self' (Some d)
                   = Inr (PyFloat ((d * 12 * spacing self ^ 3) powr (1 / 8)))"
    using assms by (simp add: calculate_equivalent_spacing_flat_def)
  have "d * 12 * spacing self ^ 3 = 12 * (d * spacing self ^ 3)" by simp
  then show ?thesis
    using quartic_vs_octic [OF pos] by (simp only: c f sum.inject pynum.inject)
qed

section \<open>ConductorBundle: the claims\<close>

text \<open>
  C5. For a ConductorBundle with \<open>n = 2\<close>: when the conductor has a resistance, a \<open>gmr\<close> and
  a radius, construction succeeds, for every layout string, with
  \<open>spacing_L = sqrt (gmr * spacing)\<close> and \<open>spacing_C = sqrt (radius * spacing)\<close>; whenever
  construction succeeds the two have these values; and changing the layout changes
  nothing in the outcome but the stored layout. The square root is the principal one: for
  a negative product Python's \<^verbatim>\<open>** (1 / 2)\<close> gives the imaginary root.
\<close>

theorem ConductorBundle_two_conductors:
  assumes "n self = 2"
  shows "(\<forall>R g r. Conductor.resistance_per_km (conductor self) = Some R
              \<and> gmr (conductor self) = Some g \<and> radius (conductor self) = Some r \<longrightarrow>
            (\<exists>bd. ConductorBundle_post_init self = Inr bd
                \<and> spacing_L bd = principal_sqrt (g * spacing self)
                \<and> spacing_C bd = principal_sqrt (r * spacing self)))
       \<and> (\<forall>bd. ConductorBundle_post_init self = Inr bd \<longrightarrow>
            (\<exists>g r. gmr (conductor self) = Some g \<and> radius (conductor self) = Some r
                \<and> spacing_L bd = principal_sqrt (g * spacing self)
                \<and> spacing_C bd = principal_sqrt (r * spacing self)))
       \<and> ConductorBundle_post_init (self\<lparr>layout := lay\<rparr>)
           = map_sum id (\<lambda>bd. bd\<lparr>layout := lay\<rparr>) (ConductorBundle_post_init self)"
proof (intro conjI allI impI)
  fix R g r
  assume "Conductor.resistance_per_km (conductor self) = Some R
              \<and> gmr (conductor self) = Some g \<and> radius (conductor self) = Some r"
  then show "\<exists>bd. ConductorBundle_post_init self = Inr bd
                \<and> spacing_L bd = principal_sqrt (g * spacing self)
                \<and> spacing_C bd = principal_sqrt (r * spacing self)"
    using assms by (simp add: ConductorBundle_post_init_def two_conductors_spacing)
next
  fix bd
  assume "ConductorBundle_post_init self = Inr bd"
  then show "\<exists>g r. gmr (conductor self) = Some g \<and> radius (conductor self) = Some r
                \<and> spacing_L bd = principal_sqrt (g * spacing self)
                \<and> spacing_C bd = principal_sqrt (r * spacing self)"
    using assms
    by (auto simp: ConductorBundle_post_init_def two_conductors_spacing
             split: option.splits if_splits)
next
  have "n (self\<lparr>layout := lay\<rparr>) = 2" using assms by simp
  then show "ConductorBundle_post_init (self\<lparr>layout := lay\<rparr>)
           = map_sum id (\<lambda>bd. bd\<lparr>layout := lay\<rparr>) (ConductorBundle_post_init self)"
    using assms
    by (simp add: ConductorBundle_post_init_def two_conductors_spacing split: option.splits)
qed

theorem ConductorBundle_two_conductors_witness:
  "(\<exists>bd. ConductorBundle_post_init test_tower_bundle = Inr bd
        \<and> spacing_L bd = principal_sqrt (12253 / 1000000 * spacing test_tower_bundle)
        \<and> spacing_C bd = principal_sqrt (1519 / 100000 * spacing test_tower_bundle))
   \<and> ConductorBundle_post_init (test_tower_bundle\<lparr>layout := ''flat''\<rparr>)
       = map_sum id (\<lambda>bd. bd\<lparr>layout := ''flat''\<rparr>) (ConductorBundle_post_init test_tower_bundle)"
proof (intro conjI)
  have two: "n test_tower_bundle = 2" by (simp add: test_tower_bundle_def)
  note built = ConductorBundle_two_conductors
    [OF two, THEN conjunct1, rule_format, of "672 / 10000" "12253 / 1000000" "1519 / 100000"]
  show "\<exists>bd. ConductorBundle_post_init test_tower_bundle = Inr bd
        \<and> spacing_L bd = principal_sqrt (12253 / 1000000 * spacing test_tower_bundle)
        \<and> spacing_C bd = principal_sqrt (1519 / 100000 * spacing test_tower_bundle)"
    by (rule built) (simp add: test_tower_bundle_def test_tower_conductor_def Conductor_new_def)
  show "ConductorBundle_post_init (test_tower_bundle\<lparr>layout := ''flat''\<rparr>)
       = map_sum id (\<lambda>bd. bd\<lparr>layout := ''flat''\<rparr>) (ConductorBundle_post_init test_tower_bundle)"
    using ConductorBundle_two_conductors [OF two, of "''flat''"] by blast
qed

text \<open>
  C6, as stated, fails: with a conductor count outside \<open>{2, 3, 4}\<close> the layout is tested
  first, and a layout other than \<^verbatim>\<open>"circular"\<close> and \<^verbatim>\<open>"flat"\<close> raises the \<open>ValueError\<close>
  of line 83, not \<open>NotImplementedError\<close>.
\<close>

theorem ConductorBundle_unsupported_count_unknown_layout:
  "ConductorBundle_post_init
     \<lparr>n = 5, spacing = 4572 / 10000, conductor = test_tower_conductor,
      layout = ''triangular''\<rparr>
   = Inl (ValueError ''Unknown layout: triangular'')"
  by (simp add: ConductorBundle_defs test_tower_conductor_def Conductor_new_def)

text \<open>
  C6, amended. For a ConductorBundle whose conductor has a resistance and whose count \<open>n\<close>
  is not zero and outside \<open>{2, 3, 4}\<close>: with the layout \<^verbatim>\<open>"circular"\<close> or \<^verbatim>\<open>"flat"\<close>
  construction fails with \<open>NotImplementedError\<close>; with any other layout string it fails with
  the \<open>ValueError\<close> for an unknown layout.
\<close>

theorem ConductorBundle_unsupported_count:
  assumes "n self \<noteq> 0" "n self \<noteq> 2" "n self \<noteq> 3" "n self \<noteq> 4"
    and "Conductor.resistance_per_km (conductor self) = Some R"
  shows "ConductorBundle_post_init self
           = (if layout self = ''circular'' \<or> layout self = ''flat''
              then Inl (NotImplementedError ''Geometry calculations not implemented for n > 4'')
              else Inl (ValueError (''Unknown layout: '' @ layout self)))"
  using assms by (simp add: ConductorBundle_defs)

theorem ConductorBundle_unsupported_count_witness:
  "ConductorBundle_post_init
     \<lparr>n = 5, spacing = 4572 / 10000, conductor = test_tower_conductor, layout = ''circular''\<rparr>
   = Inl (NotImplementedError ''Geometry calculations not implemented for n > 4'')"
  using ConductorBundle_unsupported_count
    [of "\<lparr>n = 5, spacing = 4572 / 10000, conductor = test_tower_conductor,
          layout = ''circular''\<rparr>" "672 / 10000"]
  by (simp add: test_tower_conductor_def Conductor_new_def)

text \<open>
  C7, as stated, fails for \<open>n = 4\<close>: with conductor distance \<open>6\<close> and spacing \<open>1\<close> the
  circular formula \<open>(6 * 1 ^ 3 * sqrt 2) ** (1 / 4)\<close> and the flat formula
  \<open>(6 * 12 * 1 ^ 3) ** (1 / 8)\<close> are the same number, the eighth root of \<open>72\<close>.
\<close>

theorem layouts_coincide:
  "calculate_equivalent_spacing
     \<lparr>n = 4, spacing = 1, conductor = Conductor_new (Some 6) None (Some 1) (Some 6) None,
      layout = ''circular''\<rparr> ''inductance''
   = Inr (PyFloat (72 powr (1 / 8)))
   \<and> calculate_equivalent_spacing
     \<lparr>n = 4, spacing = 1, conductor = Conductor_new (Some 6) None (Some 1) (Some 6) None,
      layout = ''flat''\<rparr> ''inductance''
   = Inr (PyFloat (72 powr (1 / 8)))"
proof -
  have "(6 * 2 powr (1 / 2)) powr (1 / 4) = (72 :: real) powr (1 / 8)"
    using quartic_vs_octic [of 6] by simp
  then show ?thesis
    by (simp add: ConductorBundle_defs Conductor_new_def float_pow_nonneg)
qed

text \<open>
  C7, amended. For positive spacing, \<open>gmr\<close> and radius: with \<open>n = 3\<close> the equivalent spacing
  of the circular layout differs from that of the flat layout, for inductance and for
  capacitance; with \<open>n = 4\<close> the two differ whenever the conductor distance times the cube
  of the spacing is at least \<open>1 / 100\<close> away from \<open>6\<close>, and they are equal when that
  product is \<open>6\<close>. Nothing is said of the products closer to \<open>6\<close>: there the two formulas
  are so near each other that rounding decides.
\<close>

theorem layouts_differ:
  assumes "0 < spacing self"
    and "gmr (conductor self) = Some g" "0 < g"
    and "radius (conductor self) = Some r" "0 < r"
  shows "(n self = 3 \<longrightarrow>
            calculate_equivalent_spacing (self\<lparr>layout := ''circular''\<rparr>) ''inductance''
              \<noteq> calculate_equivalent_spacing (self\<lparr>layout := ''flat''\<rparr>) ''inductance''
            \<and> calculate_equivalent_spacing (self\<lparr>layout := ''circular''\<rparr>) ''capacitance''
              \<noteq> calculate_equivalent_spacing (self\<lparr>layout := ''flat''\<rparr>) ''capacitance'')
       \<and> (n self = 4 \<and> 1 / 100 \<le> \<bar>g * spacing self ^ 3 - 6\<bar> \<longrightarrow>
            calculate_equivalent_spacing (self\<lparr>layout := ''circular''\<rparr>) ''inductance''
              \<noteq> calculate_equivalent_spacing (self\<lparr>layout := ''flat''\<rparr>) ''inductance'')
       \<and> (n self = 4 \<and> 1 / 100 \<le> \<bar>r * spacing self ^ 3 - 6\<bar> \<longrightarrow>
            calculate_equivalent_spacing (self\<lparr>layout := ''circular''\<rparr>) ''capacitance''
              \<noteq> calculate_equivalent_spacing (self\<lparr>layout := ''flat''\<rparr>) ''capacitance'')
       \<and> (n self = 4 \<and> g * spacing self ^ 3 = 6 \<longrightarrow>
            calculate_equivalent_spacing (self\<lparr>layout := ''circular''\<rparr>) ''inductance''
              = calculate_equivalent_spacing (self\<lparr>layout := ''flat''\<rparr>) ''inductance'')
       \<and> (n self = 4 \<and> r * spacing self ^ 3 = 6 \<longrightarrow>
            calculate_equivalent_spacing (self\<lparr>layout := ''circular''\<rparr>) ''capacitance''
              = calculate_equivalent_spacing (self\<lparr>layout := ''flat''\<rparr>) ''capacitance'')"
proof -
  have three: "calculate_equivalent_spacing (self\<lparr>layout := ''circular''\<rparr>) ''inductance''
              \<noteq> calculate_equivalent_spacing (self\<lparr>layout := ''flat''\<rparr>) ''inductance''
            \<and> calculate_equivalent_spacing (self\<lparr>layout := ''circular''\<rparr>) ''capacitance''
              \<noteq> calculate_equivalent_spacing (self\<lparr>layout := ''flat''\<rparr>) ''capacitance''"
    if three: "n self = 3"
  proof
    have s: "0 < spacing (self\<lparr>layout := ''circular''\<rparr>)"
            "n (self\<lparr>layout := ''circular''\<rparr>) = 3"
      using assms(1) three by simp_all
    show "calculate_equivalent_spacing (self\<lparr>layout := ''circular''\<rparr>) ''inductance''
            \<noteq> calculate_equivalent_spacing (self\<lparr>layout := ''flat''\<rparr>) ''inductance''"
      using three_conductors_differ
        [OF assms(3) s, of "self\<lparr>layout := ''flat''\<rparr>"] assms(2) three
      by (simp add: calculate_equivalent_spacing_def)
    show "calculate_equivalent_spacing (self\<lparr>layout := ''circular''\<rparr>) ''capacitance''
            \<noteq> calculate_equivalent_spacing (self\<lparr>layout := ''flat''\<rparr>) ''capacitance''"
      using three_conductors_differ
        [OF assms(5) s, of "self\<lparr>layout := ''flat''\<rparr>"] assms(4) three
      by (simp add: calculate_equivalent_spacing_def)
  qed
  have four_L: "(calculate_equivalent_spacing (self\<lparr>layout := ''circular''\<rparr>) ''inductance''
          = calculate_equivalent_spacing (self\<lparr>layout := ''flat''\<rparr>) ''inductance'')
        = (g * spacing self ^ 3 = 6)"
    if four: "n self = 4"
  proof -
    have s: "0 < spacing (self\<lparr>layout := ''circular''\<rparr>)"
            "n (self\<lparr>layout := ''circular''\<rparr>) = 4"
      using assms(1) four by simp_all
    show ?thesis
      using four_conductors_coincide
        [OF assms(3) s, of "self\<lparr>layout := ''flat''\<rparr>"] assms(2) four
      by (simp add: calculate_equivalent_spacing_def)
  qed
  have four_C: "(calculate_equivalent_spacing (self\<lparr>layout := ''circular''\<rparr>) ''capacitance''
          = calculate_equivalent_spacing (self\<lparr>layout := ''flat''\<rparr>) ''capacitance'')
        = (r * spacing self ^ 3 = 6)"
    if four: "n self = 4"
  proof -
    have s: "0 < spacing (self\<lparr>layout := ''circular''\<rparr>)"
            "n (self\<lparr>layout := ''circular''\<rparr>) = 4"
      using assms(1) four by simp_all
    show ?thesis
      using four_conductors_coincide
        [OF assms(5) s, of "self\<lparr>layout := ''flat''\<rparr>"] assms(4) four
      by (simp add: calculate_equivalent_spacing_def)
  qed
  have away: "x \<noteq> 6" if "1 / 100 \<le> \<bar>x - 6\<bar>" for x :: real
    using that by auto
  show ?thesis
    using three four_L four_C away by blast
qed

theorem layouts_differ_witness:
  "calculate_equivalent_spacing
     \<lparr>n = 3, spacing = 4572 / 10000, conductor = test_tower_conductor,
      layout = ''circular''\<rparr> ''inductance''
   \<noteq> calculate_equivalent_spacing
     \<lparr>n = 3, spacing = 4572 / 10000, conductor = test_tower_conductor,
      layout = ''flat''\<rparr> ''inductance''
   \<and> calculate_equivalent_spacing
     \<lparr>n = 4, spacing = 4572 / 10000, conductor = test_tower_conductor,
      layout = ''circular''\<rparr> ''capacitance''
   \<noteq> calculate_equivalent_spacing
     \<lparr>n = 4, spacing = 4572 / 10000, conductor = test_tower_conductor,
      layout = ''flat''\<rparr> ''capacitance''
   \<and> calculate_equivalent_spacing
     \<lparr>n = 4, spacing = 2, conductor = Conductor_new (Some (3 / 4)) None (Some 1) (Some (3 / 4)) None,
      layout = ''circular''\<rparr> ''inductance''
   = calculate_equivalent_spacing
     \<lparr>n = 4, spacing = 2, conductor = Conductor_new (Some (3 / 4)) None (Some 1) (Some (3 / 4)) None,
      layout = ''flat''\<rparr> ''inductance''"
proof (intro conjI)
  show "calculate_equivalent_spacing
     \<lparr>n = 3, spacing = 4572 / 10000, conductor = test_tower_conductor,
      layout = ''circular''\<rparr> ''inductance''
   \<noteq> calculate_equivalent_spacing
     \<lparr>n = 3, spacing = 4572 / 10000, conductor = test_tower_conductor,
      layout = ''flat''\<rparr> ''inductance''"
    using layouts_differ
      [of "\<lparr>n = 3, spacing = 4572 / 10000, conductor = test_tower_conductor,
            layout = ''circular''\<rparr>" "12253 / 1000000" "1519 / 100000"]
    by (simp add: test_tower_conductor_def Conductor_new_def)
  show "calculate_equivalent_spacing
     \<lparr>n = 4, spacing = 4572 / 10000, conductor = test_tower_conductor,
      layout = ''circular''\<rparr> ''capacitance''
   \<noteq> calculate_equivalent_spacing
     \<lparr>n = 4, spacing = 4572 / 10000, conductor = test_tower_conductor,
      layout = ''flat''\<rparr> ''capacitance''"
    using layouts_differ
      [of "\<lparr>n = 4, spacing = 4572 / 10000, conductor = test_tower_conductor,
            layout = ''circular''\<rparr>" "12253 / 1000000" "1519 / 100000"]
    by (simp add: test_tower_conductor_def Conductor_new_def power_divide)
  show "calculate_equivalent_spacing
     \<lparr>n = 4, spacing = 2, conductor = Conductor_new (Some (3 / 4)) None (Some 1) (Some (3 / 4)) None,
      layout = ''circular''\<rparr> ''inductance''
   = calculate_equivalent_spacing
     \<lparr>n = 4, spacing = 2, conductor = Conductor_new (Some (3 / 4)) None (Some 1) (Some (3 / 4)) None,
      layout = ''flat''\<rparr> ''inductance''"
    using layouts_differ
      [of "\<lparr>n = 4, spacing = 2,
            conductor = Conductor_new (Some (3 / 4)) None (Some 1) (Some (3 / 4)) None,
            layout = ''circular''\<rparr>" "3 / 4" "3 / 4"]
    by (simp add: Conductor_new_def)
qed

section \<open>Tower: what the methods compute\<close>

lemma equivalent_distance_calculate:
  "equivalent_distance (calculate_distances ph)
     = PyFloat (spec_geometric_mean
        (spec_distance (Tower_phases.a ph) (Tower_phases.b ph))
        (spec_distance (Tower_phases.a ph) (Tower_phases.c ph))
        (spec_distance (Tower_phases.b ph) (Tower_phases.c ph)))"
proof -
  have "0 \<le> spec_distance (Tower_phases.a ph) (Tower_phases.b ph)
           * spec_distance (Tower_phases.a ph) (Tower_phases.c ph)
           * spec_distance (Tower_phases.b ph) (Tower_phases.c ph)"
    by (simp add: spec_distance_def)
  then show ?thesis
    by (simp add: calculate_distances_def Let_def dict_values_def math_prod3
          spec_geometric_mean_def float_pow_nonneg cube_root_powr
          spec_distance_def [symmetric])
qed

lemma equivalent_reflected_distance_calculate:
  "equivalent_reflected_distance (calculate_distances ph)
     = PyFloat (spec_geometric_mean
        (spec_reflected_distance (Tower_phases.a ph) (Tower_phases.b ph))
        (spec_reflected_distance (Tower_phases.a ph) (Tower_phases.c ph))
        (spec_reflected_distance (Tower_phases.b ph) (Tower_phases.c ph)))"
proof -
  have "0 \<le> spec_reflected_distance (Tower_phases.a ph) (Tower_phases.b ph)
           * spec_reflected_distance (Tower_phases.a ph) (Tower_phases.c ph)
           * spec_reflected_distance (Tower_phases.b ph) (Tower_phases.c ph)"
    by (simp add: spec_reflected_distance_def)
  then show ?thesis
    by (simp add: calculate_distances_def Let_def dict_values_def math_prod3
          spec_geometric_mean_def float_pow_nonneg cube_root_powr
          spec_reflected_distance_def [symmetric])
qed

lemma equivalent_height_calculate:
  "equivalent_height (calculate_distances ph)
     = float_pow (snd (Tower_phases.a ph) * snd (Tower_phases.b ph) * snd (Tower_phases.c ph))
         (1 / 3)"
  by (simp add: calculate_distances_def Let_def math_prod3)

lemma distances_calculate:
  "true_distance (calculate_distances ph)
     = [(''ab'', spec_distance (Tower_phases.a ph) (Tower_phases.b ph)),
        (''ac'', spec_distance (Tower_phases.a ph) (Tower_phases.c ph)),
        (''bc'', spec_distance (Tower_phases.b ph) (Tower_phases.c ph))]"
  "reflected_distance (calculate_distances ph)
     = [(''ab'', spec_reflected_distance (Tower_phases.a ph) (Tower_phases.b ph)),
        (''ac'', spec_reflected_distance (Tower_phases.a ph) (Tower_phases.c ph)),
        (''bc'', spec_reflected_distance (Tower_phases.b ph) (Tower_phases.c ph))]"
  by (simp_all add: calculate_distances_def Let_def spec_distance_def spec_reflected_distance_def)

lemma frame_calculate:
  "bundle (calculate_distances ph) = bundle ph"
  "locations (calculate_distances ph) = locations ph"
  "circuits (calculate_distances ph) = circuits ph"
  "freq (calculate_distances ph) = freq ph"
  "Tower_phases.a (calculate_distances ph) = Tower_phases.a ph"
  "Tower_phases.b (calculate_distances ph) = Tower_phases.b ph"
  "Tower_phases.c (calculate_distances ph) = Tower_phases.c ph"
  by (simp_all add: calculate_distances_def Let_def)

lemma calculate_inductance_per_km_InrD:
  assumes "calculate_inductance_per_km k d = Inr L"
  shows "\<exists>u v. equivalent_distance d = PyFloat u \<and> spacing_L (bundle d) = PyFloat v
            \<and> v \<noteq> 0 \<and> 0 < u / v \<and> L = mu_0 k / (2 * pi) * ln (u / v)"
proof -
  from assms obtain q l where
        q: "py_truediv (equivalent_distance d) (spacing_L (bundle d)) = Inr q"
    and l: "math_log q = Inr l" and L: "L = mu_0 k / (2 * pi) * l"
    by (auto simp: calculate_inductance_per_km_def split: sum.splits)
  from math_log_InrD [OF l] obtain x where x: "q = PyFloat x" "0 < x" "l = ln x" by blast
  from py_truediv_PyFloatD [OF q [unfolded x(1)]] obtain u v where
    "equivalent_distance d = PyFloat u" "spacing_L (bundle d) = PyFloat v" "v \<noteq> 0" "x = u / v"
    by blast
  with x L show ?thesis by auto
qed


lemma Tower_post_init_InrD:
  assumes "Tower_post_init k self = Inr t"
  shows "\<exists>ph L C. ph = \<lparr>locations = locations self, bundle = bundle self,
                    circuits = circuits self, freq = freq self,
                    a = PhaseLocations.a (locations self),
                    b = PhaseLocations.b (locations self),
                    c = PhaseLocations.c (locations self)\<rparr>
          \<and> circuits self = 1
          \<and> calculate_inductance_per_km k (calculate_distances ph) = Inr L
          \<and> calculate_shunt_capacitance_per_km k (calculate_distances ph) = Inr C
          \<and> inductance t = L \<and> capacitance t = C
          \<and> resistance t = ConductorBundle.resistance_per_km (bundle self)
          \<and> true_distance t = true_distance (calculate_distances ph)
          \<and> reflected_distance t = reflected_distance (calculate_distances ph)
          \<and> equivalent_distance t = equivalent_distance (calculate_distances ph)
          \<and> equivalent_reflected_distance t
              = equivalent_reflected_distance (calculate_distances ph)
          \<and> equivalent_height t = equivalent_height (calculate_distances ph)"
  using assms
  by (auto simp: Tower_post_init_def Let_def frame_calculate split: if_splits sum.splits)

lemma spec_distance_pos: "p \<noteq> q \<Longrightarrow> 0 < spec_distance p q"
proof -
  assume "p \<noteq> q"
  then have "fst p - fst q \<noteq> 0 \<or> snd p - snd q \<noteq> 0"
    by (auto simp: prod_eq_iff)
  then have "0 < (fst p - fst q) ^ 2 + (snd p - snd q) ^ 2"
    by (auto simp: sum_power2_gt_zero_iff)
  then show ?thesis by (simp add: spec_distance_def)
qed

lemma spec_reflected_distance_pos:
  "0 < snd p \<Longrightarrow> 0 < snd q \<Longrightarrow> 0 < spec_reflected_distance p q"
proof -
  assume "0 < snd p" "0 < snd q"
  then have "snd p + snd q \<noteq> 0" by simp
  then have "0 < (fst p - fst q) ^ 2 + (snd p + snd q) ^ 2"
    by (auto simp: sum_power2_gt_zero_iff)
  then show ?thesis by (simp add: spec_reflected_distance_def)
qed

lemma spec_geometric_mean_pos:
  "0 < x \<Longrightarrow> 0 < y \<Longrightarrow> 0 < z \<Longrightarrow> 0 < spec_geometric_mean x y z"
  by (simp add: spec_geometric_mean_def)

lemma spec_geometric_mean_cube:
  "0 < x \<Longrightarrow> 0 < y \<Longrightarrow> 0 < z \<Longrightarrow> spec_geometric_mean x y z ^ 3 = x * y * z"
  by (simp add: spec_geometric_mean_def)

lemma quotients_differ:
  fixes D R H s PD PR PH :: real
  assumes "0 < D" "0 < R" "0 < H" "0 < s"
    and "D ^ 3 = PD" "R ^ 3 = PR" "H ^ 3 = PH"
    and ne: "64 * PD\<^sup>2 * PH\<^sup>2 \<noteq> PR\<^sup>2 * s ^ 6"
  shows "D / s \<noteq> R / (2 * H)"
proof
  assume "D / s = R / (2 * H)"
  then have "D * (2 * H) = R * s"
    using assms(3,4) by (simp add: field_simps)
  then have "(D * (2 * H)) ^ 6 = (R * s) ^ 6" by simp
  then have "64 * (D ^ 3)\<^sup>2 * (H ^ 3)\<^sup>2 = (R ^ 3)\<^sup>2 * s ^ 6"
    by (simp add: power_mult_distrib power_mult [symmetric])
  with ne assms(5-7) show False by simp
qed

text \<open>
  A sufficient condition for construction to succeed: three distinct phases above the
  ground, positive equivalent spacings, and the two logarithms of the capacitance
  different (stated on the squares, where no root is left).
\<close>

lemma Tower_post_init_succeeds:
  assumes circ: "circuits self = 1"
    and loc: "locations self
                = \<lparr>PhaseLocations.a = pa, PhaseLocations.b = pb, PhaseLocations.c = pc\<rparr>"
    and sL: "spacing_L (bundle self) = PyFloat sL" "0 < sL"
    and sC: "spacing_C (bundle self) = PyFloat sC" "0 < sC"
    and distinct: "pa \<noteq> pb" "pa \<noteq> pc" "pb \<noteq> pc"
    and high: "0 < snd pa" "0 < snd pb" "0 < snd pc"
    and ne: "64 * (spec_distance pa pb * spec_distance pa pc * spec_distance pb pc)\<^sup>2
                * (snd pa * snd pb * snd pc)\<^sup>2
             \<noteq> (spec_reflected_distance pa pb * spec_reflected_distance pa pc
                  * spec_reflected_distance pb pc)\<^sup>2 * sC ^ 6"
  shows "\<exists>t. Tower_post_init k self = Inr t"
proof -
  define ph where "ph = \<lparr>locations = locations self, bundle = bundle self,
                    circuits = circuits self, freq = freq self,
                    a = PhaseLocations.a (locations self),
                    b = PhaseLocations.b (locations self),
                    c = PhaseLocations.c (locations self)\<rparr>"
  define D where "D = spec_geometric_mean (spec_distance pa pb) (spec_distance pa pc)
                        (spec_distance pb pc)"
  define R where "R = spec_geometric_mean (spec_reflected_distance pa pb)
                        (spec_reflected_distance pa pc) (spec_reflected_distance pb pc)"
  define H where "H = spec_geometric_mean (snd pa) (snd pb) (snd pc)"
  have D: "0 < D" "D ^ 3 = spec_distance pa pb * spec_distance pa pc * spec_distance pb pc"
    unfolding D_def using distinct
    by (simp_all add: spec_geometric_mean_pos spec_geometric_mean_cube spec_distance_pos)
  have R: "0 < R" "R ^ 3 = spec_reflected_distance pa pb * spec_reflected_distance pa pc
                            * spec_reflected_distance pb pc"
    unfolding R_def using high
    by (simp_all add: spec_geometric_mean_pos spec_geometric_mean_cube
          spec_reflected_distance_pos)
  have H: "0 < H" "H ^ 3 = snd pa * snd pb * snd pc"
    unfolding H_def using high
    by (simp_all add: spec_geometric_mean_pos spec_geometric_mean_cube)
  have eD: "equivalent_distance (calculate_distances ph) = PyFloat D"
    by (simp add: equivalent_distance_calculate ph_def loc D_def)
  have eR: "equivalent_reflected_distance (calculate_distances ph) = PyFloat R"
    by (simp add: equivalent_reflected_distance_calculate ph_def loc R_def)
  have "0 \<le> snd pa * snd pb * snd pc" using high by simp
  then have eH: "equivalent_height (calculate_distances ph) = PyFloat H"
    by (simp add: equivalent_height_calculate ph_def loc H_def float_pow_nonneg
          cube_root_powr spec_geometric_mean_def)
  have bd: "bundle (calculate_distances ph) = bundle self"
    by (simp add: frame_calculate ph_def)
  have "0 < D / sL" using D(1) sL(2) by simp
  then have L: "calculate_inductance_per_km k (calculate_distances ph)
                  = Inr (mu_0 k / (2 * pi) * ln (D / sL))"
    using sL by (simp add: calculate_inductance_per_km_def eD bd)
  have q1: "0 < D / sC" using D(1) sC(2) by simp
  have q2: "0 < R / (2 * H)" using R(1) H(1) by simp
  have "D / sC \<noteq> R / (2 * H)"
    using quotients_differ [OF D(1) R(1) H(1) sC(2) D(2) R(2) H(2) ne] .
  then have "ln (D / sC) \<noteq> ln (R / (2 * H))"
    using q1 q2 by simp
  then have C: "calculate_shunt_capacitance_per_km k (calculate_distances ph)
                  = Inr (2 * pi * epsilon_0 k / (ln (D / sC) - ln (R / (2 * H))))"
    using sC q1 q2 H(1)
    by (simp add: calculate_shunt_capacitance_per_km_def eD eR eH bd)
  show ?thesis
    unfolding Tower_post_init_def Let_def ph_def [symmetric]
    by (simp add: circ L C)
qed

lemma test_tower_bundle_constructed:
  "ConductorBundle_post_init test_tower_bundle
     = Inr \<lparr>n = 2, spacing = 15 / 10 * (3048 / 10000), conductor = test_tower_conductor,
            layout = ''circular'', resistance_per_km = 672 / 10000 / 2,
            spacing_L = PyFloat (sqrt (12253 / 1000000 * (15 / 10 * (3048 / 10000)))),
            spacing_C = PyFloat (sqrt (1519 / 100000 * (15 / 10 * (3048 / 10000))))\<rparr>"
  by (simp add: ConductorBundle_post_init_def two_conductors_spacing test_tower_bundle_def
        test_tower_conductor_def Conductor_new_def principal_sqrt_def)

lemma test_tower_constructed:
  "\<exists>bd t. ConductorBundle_post_init test_tower_bundle = Inr bd
       \<and> Tower_post_init k (test_tower bd) = Inr t"
proof -
  let ?bd = "\<lparr>n = 2, spacing = 15 / 10 * (3048 / 10000), conductor = test_tower_conductor,
            layout = ''circular'', resistance_per_km = 672 / 10000 / 2,
            spacing_L = PyFloat (sqrt (12253 / 1000000 * (15 / 10 * (3048 / 10000)))),
            spacing_C = PyFloat (sqrt (1519 / 100000 * (15 / 10 * (3048 / 10000))))\<rparr>"
  have "\<exists>t. Tower_post_init k (test_tower ?bd) = Inr t"
  proof (rule Tower_post_init_succeeds
      [where sL = "sqrt (12253 / 1000000 * (15 / 10 * (3048 / 10000)))"
         and sC = "sqrt (1519 / 100000 * (15 / 10 * (3048 / 10000)))"
         and pa = "(- 24 * (3048 / 10000), 90 * (3048 / 10000))"
         and pb = "(0, 90 * (3048 / 10000))"
         and pc = "(24 * (3048 / 10000), 90 * (3048 / 10000))"])
    show "64 * (spec_distance (- 24 * (3048 / 10000), 90 * (3048 / 10000))
                  (0, 90 * (3048 / 10000))
                * spec_distance (- 24 * (3048 / 10000), 90 * (3048 / 10000))
                    (24 * (3048 / 10000), 90 * (3048 / 10000))
                * spec_distance (0, 90 * (3048 / 10000))
                    (24 * (3048 / 10000), 90 * (3048 / 10000)))\<^sup>2
              * (snd (- 24 * (3048 / 10000) :: real, 90 * (3048 / 10000) :: real)
                 * snd (0 :: real, 90 * (3048 / 10000) :: real)
                 * snd (24 * (3048 / 10000) :: real, 90 * (3048 / 10000) :: real))\<^sup>2
            \<noteq> (spec_reflected_distance (- 24 * (3048 / 10000), 90 * (3048 / 10000))
                  (0, 90 * (3048 / 10000))
                * spec_reflected_distance (- 24 * (3048 / 10000), 90 * (3048 / 10000))
                    (24 * (3048 / 10000), 90 * (3048 / 10000))
                * spec_reflected_distance (0, 90 * (3048 / 10000))
                    (24 * (3048 / 10000), 90 * (3048 / 10000)))\<^sup>2
              * sqrt (1519 / 100000 * (15 / 10 * (3048 / 10000))) ^ 6"
      by (simp add: power_mult_distrib spec_distance_def spec_reflected_distance_def
            sqrt_power6 power_divide)
  qed (simp_all add: test_tower_def test_tower_locations_def)
  with test_tower_bundle_constructed show ?thesis by blast
qed

section \<open>Tower: the claims\<close>



text \<open>
  C2. For every Tower that is constructed, with phases \<open>pa\<close>, \<open>pb\<close>, \<open>pc\<close>: the bundle's
  \<open>spacing_L\<close> is a float, the true distances are the Euclidean distances of the phases,
  the equivalent distance is the cube root of their product, the inductance is
  \<open>mu_0 / (2 pi) * ln (equivalent distance / spacing_L)\<close>, and the resistance is the
  bundle's \<open>resistance_per_km\<close> unchanged.
\<close>

theorem Tower_inductance_resistance_formula:
  assumes "Tower_post_init k self = Inr t"
    and "locations self
           = \<lparr>PhaseLocations.a = pa, PhaseLocations.b = pb, PhaseLocations.c = pc\<rparr>"
  shows "\<exists>sL. spacing_L (bundle self) = PyFloat sL
          \<and> true_distance t
              = [(''ab'', spec_distance pa pb), (''ac'', spec_distance pa pc),
                 (''bc'', spec_distance pb pc)]
          \<and> equivalent_distance t
              = PyFloat (spec_geometric_mean (spec_distance pa pb) (spec_distance pa pc)
                  (spec_distance pb pc))
          \<and> inductance t
              = mu_0 k / (2 * pi)
                * ln (spec_geometric_mean (spec_distance pa pb) (spec_distance pa pc)
                        (spec_distance pb pc) / sL)
          \<and> resistance t = ConductorBundle.resistance_per_km (bundle self)"
proof -
  from Tower_post_init_InrD [OF assms(1)] obtain ph L where
        ph: "ph = \<lparr>locations = locations self, bundle = bundle self,
                    circuits = circuits self, freq = freq self,
                    a = PhaseLocations.a (locations self),
                    b = PhaseLocations.b (locations self),
                    c = PhaseLocations.c (locations self)\<rparr>"
    and L: "calculate_inductance_per_km k (calculate_distances ph) = Inr L"
    and t: "inductance t = L" "resistance t = ConductorBundle.resistance_per_km (bundle self)"
           "equivalent_distance t = equivalent_distance (calculate_distances ph)"
           "true_distance t = true_distance (calculate_distances ph)"
    by blast
  from calculate_inductance_per_km_InrD [OF L] obtain u v where
    uv: "equivalent_distance (calculate_distances ph) = PyFloat u"
        "spacing_L (bundle (calculate_distances ph)) = PyFloat v"
        "L = mu_0 k / (2 * pi) * ln (u / v)"
    by blast
  have sL: "spacing_L (bundle self) = PyFloat v"
    using uv(2) ph by (simp add: frame_calculate)
  have u: "u = spec_geometric_mean (spec_distance pa pb) (spec_distance pa pc)
                 (spec_distance pb pc)"
    using uv(1) ph assms(2) by (simp add: equivalent_distance_calculate)
  have d: "true_distance t
              = [(''ab'', spec_distance pa pb), (''ac'', spec_distance pa pc),
                 (''bc'', spec_distance pb pc)]"
    using t(4) ph assms(2) by (simp add: distances_calculate)
  show ?thesis
    using sL d t(1,2,3) uv(1,3) u by auto
qed

theorem Tower_inductance_resistance_formula_witness:
  "\<exists>bd t sL. ConductorBundle_post_init test_tower_bundle = Inr bd
     \<and> Tower_post_init test_const (test_tower bd) = Inr t
     \<and> spacing_L bd = PyFloat sL
     \<and> inductance t
         = mu_0 test_const / (2 * pi)
           * ln (spec_geometric_mean
                   (spec_distance (PhaseLocations.a test_tower_locations)
                      (PhaseLocations.b test_tower_locations))
                   (spec_distance (PhaseLocations.a test_tower_locations)
                      (PhaseLocations.c test_tower_locations))
                   (spec_distance (PhaseLocations.b test_tower_locations)
                      (PhaseLocations.c test_tower_locations)) / sL)
     \<and> resistance t = ConductorBundle.resistance_per_km bd"
proof -
  from test_tower_constructed [of test_const] obtain bd t where
        bd: "ConductorBundle_post_init test_tower_bundle = Inr bd"
    and t: "Tower_post_init test_const (test_tower bd) = Inr t"
    by blast
  have loc: "locations (test_tower bd)
               = \<lparr>PhaseLocations.a = PhaseLocations.a test_tower_locations,
                  PhaseLocations.b = PhaseLocations.b test_tower_locations,
                  PhaseLocations.c = PhaseLocations.c test_tower_locations\<rparr>"
    by (simp add: test_tower_def)
  have b: "bundle (test_tower bd) = bd"
    by (simp add: test_tower_def)
  from Tower_inductance_resistance_formula [OF t loc, unfolded b] bd t show ?thesis
    by blast
qed

text \<open>
  C10. Two Tower constructions that differ in \<open>freq\<close> only have the same outcome: the same
  error, or objects equal in every attribute (the distances, the equivalent distances,
  resistance, inductance, capacitance) but the stored \<open>freq\<close>.
\<close>

theorem Tower_freq_irrelevant:
  "Tower_post_init k (self\<lparr>freq := f2\<rparr>)
     = (case Tower_post_init k self of Inl e \<Rightarrow> Inl e | Inr t \<Rightarrow> Inr (t\<lparr>freq := f2\<rparr>))"
  by (simp add: Tower_post_init_def Let_def calculate_distances_def
        calculate_inductance_per_km_def calculate_shunt_capacitance_per_km_def
      split: sum.splits)

theorem Tower_freq_irrelevant_witness:
  "\<exists>bd t. ConductorBundle_post_init test_tower_bundle = Inr bd
     \<and> Tower_post_init test_const (test_tower bd) = Inr t
     \<and> Tower_post_init test_const (test_tower bd\<lparr>freq := 50\<rparr>) = Inr (t\<lparr>freq := 50\<rparr>)"
proof -
  from test_tower_constructed [of test_const] obtain bd t where
        bd: "ConductorBundle_post_init test_tower_bundle = Inr bd"
    and t: "Tower_post_init test_const (test_tower bd) = Inr t"
    by blast
  from Tower_freq_irrelevant [where k = test_const and self = "test_tower bd" and ?f2.0 = 50] t
  have "Tower_post_init test_const (test_tower bd\<lparr>freq := 50\<rparr>) = Inr (t\<lparr>freq := 50\<rparr>)"
    by simp
  with bd t show ?thesis by blast
qed

end
